theory Spec2Isabelle
  imports Complex_Main "HOL-Library.Sublist" "HOL-Library.AList"
begin

section \<open>JavaScript strings\<close>

text \<open>
  A string is the list of its code units. Searching a string compares units and nothing
  else, so it is defined for lists over any type of units: the 16-bit units of a
  JavaScript string as well as the characters of HOL.

  \<open>hay.includes(needle)\<close>: the needle occurs at some position of the haystack. The
  search tries every start position from the left.
\<close>

fun str_includes :: "'c list \<Rightarrow> 'c list \<Rightarrow> bool" where
  "str_includes [] needle = (needle = [])"
| "str_includes (c # cs) needle = (prefix needle (c # cs) \<or> str_includes cs needle)"

text \<open>
  \<open>String.prototype.toLowerCase\<close> belongs to the language runtime and not to the
  repository. It works on the whole string: it folds most letters one by one and a few
  by their neighbours (a Greek capital sigma at the end of a word becomes the final
  sigma). The components that call it take it as the parameter \<open>toLower\<close>.

  \<open>toLowerCase\<close> below is that function on the strings that HOL characters hold, the
  code units 0 to 255 (ASCII and Latin-1). There it folds unit by unit: \<open>A\<close> to \<open>Z\<close>
  and the accented capitals 0xC0 to 0xDE, without the multiplication sign 0xD7, each go
  to the unit 32 above; every other unit stays.
\<close>

definition upper_case_units :: string where
  "upper_case_units =
     ''ABCDEFGHIJKLMNOPQRSTUVWXYZ'' @
     [CHR 0xC0, CHR 0xC1, CHR 0xC2, CHR 0xC3, CHR 0xC4, CHR 0xC5, CHR 0xC6, CHR 0xC7,
      CHR 0xC8, CHR 0xC9, CHR 0xCA, CHR 0xCB, CHR 0xCC, CHR 0xCD, CHR 0xCE, CHR 0xCF,
      CHR 0xD0, CHR 0xD1, CHR 0xD2, CHR 0xD3, CHR 0xD4, CHR 0xD5, CHR 0xD6,
      CHR 0xD8, CHR 0xD9, CHR 0xDA, CHR 0xDB, CHR 0xDC, CHR 0xDD, CHR 0xDE]"

definition lower_case_units :: string where
  "lower_case_units =
     ''abcdefghijklmnopqrstuvwxyz'' @
     [CHR 0xE0, CHR 0xE1, CHR 0xE2, CHR 0xE3, CHR 0xE4, CHR 0xE5, CHR 0xE6, CHR 0xE7,
      CHR 0xE8, CHR 0xE9, CHR 0xEA, CHR 0xEB, CHR 0xEC, CHR 0xED, CHR 0xEE, CHR 0xEF,
      CHR 0xF0, CHR 0xF1, CHR 0xF2, CHR 0xF3, CHR 0xF4, CHR 0xF5, CHR 0xF6,
      CHR 0xF8, CHR 0xF9, CHR 0xFA, CHR 0xFB, CHR 0xFC, CHR 0xFD, CHR 0xFE]"

definition toLowerCase_char :: "char \<Rightarrow> char" where
  "toLowerCase_char c =
     (case map_of (zip upper_case_units lower_case_units) c of
        Some l \<Rightarrow> l
      | None \<Rightarrow> c)"

definition toLowerCase :: "string \<Rightarrow> string" where
  "toLowerCase s = map toLowerCase_char s"

section \<open>CurriculumTopics: the search filter\<close>

text \<open>
  A topic as the component reads it from \<open>response.data.topics\<close>: its name, its
  subtopics and an optional description.
\<close>

record 'c curriculum_topic =
  topic :: "'c list"
  subtopics :: "'c list list"
  description :: "'c list option"

text \<open>
  \<^verbatim>\<open>
  const filteredTopics = topics.filter(topic =>
    topic.topic.toLowerCase().includes(searchQuery.toLowerCase()) ||
    topic.subtopics.some(subtopic =>
      subtopic.toLowerCase().includes(searchQuery.toLowerCase())))
  \<close>
  The first argument \<open>toLower\<close> is the runtime's \<open>toLowerCase\<close>.
\<close>

definition topic_matches :: "('c list \<Rightarrow> 'c list) \<Rightarrow> 'c list \<Rightarrow> 'c curriculum_topic \<Rightarrow> bool" where
  "topic_matches toLower searchQuery t =
     (str_includes (toLower (topic t)) (toLower searchQuery) \<or>
      list_ex (\<lambda>subtopic. str_includes (toLower subtopic) (toLower searchQuery))
        (subtopics t))"

definition filteredTopics ::
  "('c list \<Rightarrow> 'c list) \<Rightarrow> 'c curriculum_topic list \<Rightarrow> 'c list \<Rightarrow> 'c curriculum_topic list" where
  "filteredTopics toLower topics searchQuery = filter (topic_matches toLower searchQuery) topics"

text \<open>
  The specified property. The query is a case-insensitive substring of a text when,
  both put in lower case, the query stands somewhere in the text.
\<close>

definition ci_substring :: "('c list \<Rightarrow> 'c list) \<Rightarrow> 'c list \<Rightarrow> 'c list \<Rightarrow> bool" where
  "ci_substring toLower q s = (\<exists>pre suf. toLower s = pre @ toLower q @ suf)"

definition keeps_topic :: "('c list \<Rightarrow> 'c list) \<Rightarrow> 'c list \<Rightarrow> 'c curriculum_topic \<Rightarrow> bool" where
  "keeps_topic toLower q t =
     (ci_substring toLower q (topic t) \<or> (\<exists>s \<in> set (subtopics t). ci_substring toLower q s))"

text \<open>
  Where the case map folds unit by unit, as \<open>toLowerCase\<close> does on ASCII and Latin-1
  text, this is the same as: some contiguous part of the text equals the query up to
  letter case.
\<close>

definition part_equals_up_to_case :: "('c \<Rightarrow> 'c) \<Rightarrow> 'c list \<Rightarrow> 'c list \<Rightarrow> bool" where
  "part_equals_up_to_case fold_unit q s =
     (\<exists>pre mid suf. s = pre @ mid @ suf \<and> map fold_unit mid = map fold_unit q)"

text \<open>
  A topics list as the curriculum endpoint may return it, used to run the filter; in
  the last topic 0xC9 is the capital E with acute accent.
\<close>

definition algebra_topic :: "char curriculum_topic" where
  "algebra_topic =
     \<lparr>topic = ''Algebra'', subtopics = [''Linear Equations'', ''Variables''],
      description = None\<rparr>"

definition geometry_topic :: "char curriculum_topic" where
  "geometry_topic =
     \<lparr>topic = ''Geometry'', subtopics = [''Angles''], description = Some ''Shapes''\<rparr>"

definition statistics_topic :: "char curriculum_topic" where
  "statistics_topic =
     \<lparr>topic = ''Statistics'', subtopics = [''Mean'', ''Bar charts and ANGLES''],
      description = None\<rparr>"

definition energie_topic :: "char curriculum_topic" where
  "energie_topic =
     \<lparr>topic = CHR 0xC9 # ''nergie'', subtopics = [], description = None\<rparr>"

section \<open>Assessment: the quiz component\<close>

subsection \<open>Questions and component state\<close>

text \<open>
  The three mock questions of the component. The field \<open>id\<close> of the source is
  \<open>qid\<close> here and the field \<open>question\<close> is \<open>question_text\<close>; only the first
  question has options.
\<close>

datatype question_type = Mcq | ShortAnswer | ProblemSolving

record question =
  qid :: nat
  qtype :: question_type
  question_text :: string
  options :: "string list"
  correct :: string
  points :: nat

definition questions :: "question list" where
  "questions =
     [\<lparr>qid = 1, qtype = Mcq, question_text = ''What is 15 + 27?'',
       options = [''40'', ''42'', ''44'', ''46''], correct = ''42'', points = 1\<rparr>,
      \<lparr>qid = 2, qtype = ShortAnswer, question_text = ''Solve for x: 2x + 5 = 13'',
       options = [], correct = ''4'', points = 2\<rparr>,
      \<lparr>qid = 3, qtype = ProblemSolving,
       question_text = ''A student in Freetown has 500 Leone. If a notebook costs 75 Leone, how many notebooks can they buy?'',
       options = [], correct = ''6'', points = 3\<rparr>]"

record assessment_results =
  score :: int
  totalQuestions :: nat
  correctAnswers :: int
  timeTaken :: int

text \<open>
  The \<open>useState\<close> cells of the component. The object \<open>answers\<close> is an association
  list from question ids to answer strings that holds every key once. \<open>submitTimer\<close>
  is the callback that \<open>handleSubmit\<close> hands to \<open>setTimeout\<close>: while it is pending
  it holds the value of \<open>timeRemaining\<close> that the callback's closure captured.
\<close>

record assessment =
  loading :: bool
  currentQuestion :: nat
  answers :: "(nat \<times> string) list"
  timeRemaining :: nat
  isSubmitted :: bool
  results :: "assessment_results option"
  submitTimer :: "nat option"

definition initial_assessment :: assessment where
  "initial_assessment =
     \<lparr>loading = False, currentQuestion = 0, answers = [], timeRemaining = 600,
      isSubmitted = False, results = None, submitTimer = None\<rparr>"

subsection \<open>Handlers\<close>

text \<open>
  \<^verbatim>\<open>
  const handleAnswerChange = (questionId, answer) => {
    setAnswers(prev => ({ ...prev, [questionId]: answer }))
  }
  \<close>
\<close>

definition handleAnswerChange :: "nat \<Rightarrow> string \<Rightarrow> assessment \<Rightarrow> assessment" where
  "handleAnswerChange questionId answer s =
     s\<lparr>answers := AList.update questionId answer (answers s)\<rparr>"

text \<open>\<open>Object.keys(answers)\<close>.\<close>

definition object_keys :: "(nat \<times> string) list \<Rightarrow> nat list" where
  "object_keys obj = map fst obj"

text \<open>
  \<^verbatim>\<open>
  const handleSubmit = async () => {
    setLoading(true)
    setTimeout(() => {
      const score = Math.floor(Math.random() * 40) + 60
      setResults({
        score,
        totalQuestions: questions.length,
        correctAnswers: Math.floor((score / 100) * questions.length),
        timeTaken: 600 - timeRemaining
      })
      setIsSubmitted(true)
      setLoading(false)
    }, 2000)
  }
  \<close>
  \<open>handleSubmit\<close> is the part that runs at the click; \<open>submit_callback\<close> is the
  function that runs two seconds later. Its argument \<open>rnd\<close> is the value that
  \<open>Math.random()\<close> returns in that run, a number from 0 up to but not including 1;
  the arithmetic on it is read as exact.
\<close>

definition handleSubmit :: "assessment \<Rightarrow> assessment" where
  "handleSubmit s = s\<lparr>loading := True, submitTimer := Some (timeRemaining s)\<rparr>"

definition random_score :: "real \<Rightarrow> int" where
  "random_score rnd = \<lfloor>rnd * 40\<rfloor> + 60"

definition submit_results :: "real \<Rightarrow> nat \<Rightarrow> assessment_results" where
  "submit_results rnd captured =
     \<lparr>score = random_score rnd,
      totalQuestions = length questions,
      correctAnswers = \<lfloor>(real_of_int (random_score rnd) / 100) * real (length questions)\<rfloor>,
      timeTaken = 600 - int captured\<rparr>"

definition submit_callback :: "real \<Rightarrow> assessment \<Rightarrow> assessment" where
  "submit_callback rnd s =
     (case submitTimer s of
        None \<Rightarrow> s
      | Some captured \<Rightarrow>
          s\<lparr>results := Some (submit_results rnd captured), isSubmitted := True,
            loading := False, submitTimer := None\<rparr>)"

text \<open>
  \<^verbatim>\<open>
  const handleNext = () => {
    if (currentQuestion < questions.length - 1) setCurrentQuestion(prev => prev + 1)
  }
  const handlePrevious = () => {
    if (currentQuestion > 0) setCurrentQuestion(prev => prev - 1)
  }
  \<close>
\<close>

definition handleNext :: "assessment \<Rightarrow> assessment" where
  "handleNext s =
     (if currentQuestion s < length questions - 1
      then s\<lparr>currentQuestion := currentQuestion s + 1\<rparr> else s)"

definition handlePrevious :: "assessment \<Rightarrow> assessment" where
  "handlePrevious s =
     (if currentQuestion s > 0 then s\<lparr>currentQuestion := currentQuestion s - 1\<rparr> else s)"

text \<open>The timer effect: one second later \<open>timeRemaining\<close> is one less.\<close>

definition timer_tick :: "assessment \<Rightarrow> assessment" where
  "timer_tick s = s\<lparr>timeRemaining := timeRemaining s - 1\<rparr>"

text \<open>The handler of the button Retake Assessment.\<close>

definition retake :: "assessment \<Rightarrow> assessment" where
  "retake s =
     s\<lparr>currentQuestion := 0, answers := [], timeRemaining := 600,
       isSubmitted := False, results := None\<rparr>"

subsection \<open>What is rendered, and the events of the user interface\<close>

text \<open>
  \<open>if (isSubmitted && results)\<close> the component returns the results screen, which has
  the Retake button and none of the quiz controls. Otherwise it returns the quiz with
  the inputs of the current question, the Previous button, and on the last question
  the Submit button, on the others the Next button.
\<close>

definition results_view :: "assessment \<Rightarrow> bool" where
  "results_view s = (isSubmitted s \<and> results s \<noteq> None)"

text \<open>
  \<open>disabled={loading || Object.keys(answers).length < questions.length}\<close>
\<close>

definition submit_disabled :: "assessment \<Rightarrow> bool" where
  "submit_disabled s = (loading s \<or> length (object_keys (answers s)) < length questions)"

definition submit_rendered :: "assessment \<Rightarrow> bool" where
  "submit_rendered s = (\<not> results_view s \<and> currentQuestion s = length questions - 1)"

text \<open>
  The radio buttons of a multiple-choice question send one of its options; a text area
  sends any string.
\<close>

definition input_sends :: "question \<Rightarrow> string \<Rightarrow> bool" where
  "input_sends q a = (if qtype q = Mcq then a \<in> set (options q) else True)"

datatype event =
    AnswerChange string
  | ClickNext
  | ClickPrevious
  | ClickSubmit
  | ClickRetake
  | TimerTick
  | SubmitTimeout real

text \<open>
  One event of the component: \<open>None\<close> when the event cannot happen in the state (the
  control is not rendered or is disabled, the timer effect is not armed, no callback is
  pending).
\<close>

fun step :: "event \<Rightarrow> assessment \<Rightarrow> assessment option" where
  "step (AnswerChange a) s =
     (if \<not> results_view s \<and> currentQuestion s < length questions \<and>
         input_sends (questions ! currentQuestion s) a
      then Some (handleAnswerChange (qid (questions ! currentQuestion s)) a s)
      else None)"
| "step ClickNext s =
     (if \<not> results_view s \<and> currentQuestion s \<noteq> length questions - 1
      then Some (handleNext s) else None)"
| "step ClickPrevious s =
     (if \<not> results_view s \<and> currentQuestion s \<noteq> 0
      then Some (handlePrevious s) else None)"
| "step ClickSubmit s =
     (if submit_rendered s \<and> \<not> submit_disabled s then Some (handleSubmit s) else None)"
| "step ClickRetake s = (if results_view s then Some (retake s) else None)"
| "step TimerTick s =
     (if timeRemaining s > 0 \<and> \<not> isSubmitted s then Some (timer_tick s) else None)"
| "step (SubmitTimeout rnd) s =
     (if submitTimer s \<noteq> None \<and> 0 \<le> rnd \<and> rnd < 1
      then Some (submit_callback rnd s) else None)"

text \<open>The states the component can be in: the initial one and every one an event leads to.\<close>

inductive reachable :: "assessment \<Rightarrow> bool" where
  reachable_init: "reachable initial_assessment"
| reachable_step: "reachable s \<Longrightarrow> step e s = Some s' \<Longrightarrow> reachable s'"

text \<open>Running a list of events from a state, stopping with \<open>None\<close> at one that cannot happen.\<close>

fun run :: "event list \<Rightarrow> assessment \<Rightarrow> assessment option" where
  "run [] s = Some s"
| "run (e # es) s = (case step e s of None \<Rightarrow> None | Some s' \<Rightarrow> run es s')"

text \<open>
  What grading by comparison would count: the questions whose stored \<open>correct\<close> value
  is the answer given.
\<close>

definition count_correct :: "(nat \<times> string) list \<Rightarrow> nat" where
  "count_correct obj =
     length (filter (\<lambda>q. map_of obj (qid q) = Some (correct q)) questions)"

text \<open>
  What every reachable state satisfies: the keys of \<open>answers\<close> are question ids, each
  held once, and \<open>currentQuestion\<close> indexes a question.
\<close>

definition answers_ok :: "assessment \<Rightarrow> bool" where
  "answers_ok s =
     (distinct (object_keys (answers s)) \<and>
      set (object_keys (answers s)) \<subseteq> set (map qid questions) \<and>
      currentQuestion s < length questions)"

text \<open>
  A state to run the component in: the last question is shown and all three questions
  have an answer, the third one wrong.
\<close>

definition full_answers_state :: assessment where
  "full_answers_state =
     \<lparr>loading = False, currentQuestion = 2,
      answers = [(1, ''42''), (2, ''4''), (3, ''5'')], timeRemaining = 598,
      isSubmitted = False, results = None, submitTimer = None\<rparr>"

section \<open>StudentDashboard: requesting a lesson\<close>

subsection \<open>Numbers in template literals\<close>

text \<open>
  A template literal prints a whole number in decimal, with a minus sign when it is
  negative.
\<close>

definition digit_char :: "nat \<Rightarrow> char" where
  "digit_char d = ''0123456789'' ! d"

fun show_nat :: "nat \<Rightarrow> string" where
  "show_nat n =
     (if n < 10 then [digit_char n] else show_nat (n div 10) @ [digit_char (n mod 10)])"

declare show_nat.simps [simp del]

definition show_int :: "int \<Rightarrow> string" where
  "show_int i = (if i < 0 then CHR ''-'' # show_nat (nat (- i)) else show_nat (nat i))"

subsection \<open>The request, the response and the lesson that is shown\<close>

text \<open>
  The state cell \<open>lessonRequest\<close>; its fields \<open>subject\<close>, \<open>topic\<close>, \<open>specificFocus\<close>
  and \<open>grade\<close> carry the prefix \<open>req_\<close> here.
\<close>

record lesson_request =
  req_subject :: string
  req_topic :: string
  req_specificFocus :: string
  req_grade :: nat

text \<open>
  What \<open>lessonsAPI.requestLesson\<close> resolves to: \<open>response.data\<close> with its flag
  \<open>success\<close> and its \<open>lesson\<close>. A property that the response may lack is an option,
  \<open>None\<close> for \<open>undefined\<close>. The handler reads the properties \<open>id\<close>, \<open>title\<close>,
  \<open>subject\<close>, \<open>content\<close>, \<open>examples\<close>, \<open>keyPoints\<close>, \<open>key_points\<close> and
  \<open>estimatedTime\<close> of the lesson (prefix \<open>les_\<close>); \<open>objectives\<close> and
  \<open>estimated_time\<close> are properties of the lesson payload that it does not read.
\<close>

record api_example =
  ex_title :: "string option"
  ex_problem :: "string option"
  ex_description :: "string option"
  ex_explanation :: "string option"
  ex_details :: "string option"

record api_lesson =
  les_id :: "string option"
  les_title :: "string option"
  les_subject :: "string option"
  les_content :: "string option"
  les_examples :: "api_example list option"
  les_keyPoints :: "string list option"
  les_key_points :: "string list option"
  les_estimatedTime :: "int option"
  les_objectives :: "string list option"
  les_estimated_time :: "int option"

record api_response =
  success :: bool
  lesson :: "api_lesson option"

text \<open>
  The awaited call either rejects (no connection, a timeout after 60 seconds, an HTTP
  error status: the \<open>catch\<close> block runs) or resolves with a response.
\<close>

datatype api_outcome = Rejected | Resolved api_response

text \<open>
  The object that \<open>setGeneratedLesson\<close> stores. Each object literal of the handler
  has the keys \<open>id\<close>, \<open>title\<close>, \<open>subject\<close>, \<open>content\<close>, \<open>examples\<close>, \<open>keyPoints\<close>
  and \<open>estimatedTime\<close> (prefix \<open>gl_\<close>); an example in it has the keys \<open>title\<close>,
  \<open>description\<close> and \<open>details\<close> (prefix \<open>shown_\<close>). The page also reads
  \<open>generatedLesson.objectives\<close>; \<open>gl_objectives\<close> is what that read gives, \<open>None\<close>
  for an object without the key.
\<close>

record shown_example =
  shown_title :: "string option"
  shown_description :: "string option"
  shown_details :: "string option"

record generated_lesson =
  gl_id :: "string option"
  gl_title :: "string option"
  gl_subject :: "string option"
  gl_content :: "string option"
  gl_examples :: "shown_example list"
  gl_keyPoints :: "string list"
  gl_estimatedTime :: string
  gl_objectives :: "string list option"

record dashboard =
  isGeneratingLesson :: bool
  generatedLesson :: "generated_lesson option"

definition initial_dashboard :: dashboard where
  "initial_dashboard = \<lparr>isGeneratingLesson = False, generatedLesson = None\<rparr>"

subsection \<open>handleGenerateLesson\<close>

text \<open>\<open>a || b\<close> on strings that may be undefined: \<open>a\<close> unless it is undefined or empty.\<close>

definition js_or_string :: "string option \<Rightarrow> string option \<Rightarrow> string option" where
  "js_or_string a b = (case a of None \<Rightarrow> b | Some s \<Rightarrow> if s = [] then b else a)"

text \<open>
  \<open>lesson.keyPoints || lesson.key_points || []\<close>: an array, also an empty one, is
  truthy.
\<close>

definition key_points_of :: "api_lesson \<Rightarrow> string list" where
  "key_points_of l =
     (case les_keyPoints l of
        Some ks \<Rightarrow> ks
      | None \<Rightarrow> (case les_key_points l of Some ks \<Rightarrow> ks | None \<Rightarrow> []))"

text \<open>\<open>lesson.estimatedTime || 25\<close>: the number unless it is undefined or zero.\<close>

definition estimated_minutes :: "api_lesson \<Rightarrow> int" where
  "estimated_minutes l =
     (case les_estimatedTime l of None \<Rightarrow> 25 | Some n \<Rightarrow> if n = 0 then 25 else n)"

definition shown_example_of :: "api_example \<Rightarrow> shown_example" where
  "shown_example_of example =
     \<lparr>shown_title = ex_title example,
      shown_description = js_or_string (ex_problem example) (ex_description example),
      shown_details = js_or_string (ex_explanation example) (ex_details example)\<rparr>"

datatype js_error = TypeError | RequestRejected

text \<open>
  The object literal of the success branch. \<open>lesson.examples.map\<close> throws a
  \<open>TypeError\<close> when \<open>lesson.examples\<close> is undefined.
\<close>

definition transform_lesson :: "api_lesson \<Rightarrow> js_error + generated_lesson" where
  "transform_lesson l =
     (case les_examples l of
        None \<Rightarrow> Inl TypeError
      | Some examples \<Rightarrow>
          Inr \<lparr>gl_id = les_id l,
               gl_title = les_title l,
               gl_subject = les_subject l,
               gl_content = les_content l,
               gl_examples = map shown_example_of examples,
               gl_keyPoints = key_points_of l,
               gl_estimatedTime = show_int (estimated_minutes l) @ '' minutes'',
               gl_objectives = None\<rparr>)"

text \<open>The mock lesson, written out twice in the handler: in the \<open>else\<close> branch and in \<open>catch\<close>.\<close>

definition fallback_lesson :: "lesson_request \<Rightarrow> generated_lesson" where
  "fallback_lesson r =
     \<lparr>gl_id = Some ''lesson-1'',
      gl_title = Some (req_topic r @ '' - Grade '' @ show_nat (req_grade r)),
      gl_subject = Some (req_subject r),
      gl_content = Some (''This is a generated lesson about '' @ req_topic r @
        '' for Grade '' @ show_nat (req_grade r) @
        '' students in Sierra Leone. The lesson includes local examples and context relevant to Sierra Leonean students.''),
      gl_examples =
        [\<lparr>shown_title = Some ''Sierra Leone Example'',
          shown_description = Some (''A practical example using '' @ req_topic r @
            '' in a Sierra Leonean context.''),
          shown_details = Some ''This example shows how the concept applies to daily life in Sierra Leone.''\<rparr>],
      gl_keyPoints =
        [''Understanding '' @ req_topic r @ '' fundamentals'',
         ''Applying concepts to Sierra Leone context'',
         ''Practical examples and exercises''],
      gl_estimatedTime = ''25 minutes'',
      gl_objectives = None\<rparr>"

text \<open>
  The \<open>try\<close> block up to the call of \<open>setGeneratedLesson\<close>: the lesson it stores, or
  the error it throws. Reading \<open>lesson.id\<close> of an undefined \<open>lesson\<close> throws a
  \<open>TypeError\<close>.
\<close>

definition try_block :: "lesson_request \<Rightarrow> api_outcome \<Rightarrow> js_error + generated_lesson" where
  "try_block r outcome =
     (case outcome of
        Rejected \<Rightarrow> Inl RequestRejected
      | Resolved response \<Rightarrow>
          if success response
          then (case lesson response of None \<Rightarrow> Inl TypeError | Some l \<Rightarrow> transform_lesson l)
          else Inr (fallback_lesson r))"

text \<open>
  The handler from its \<open>try\<close> to the end of \<open>finally\<close>, given what the awaited call
  came to.
\<close>

definition handleGenerateLesson :: "lesson_request \<Rightarrow> api_outcome \<Rightarrow> dashboard \<Rightarrow> dashboard" where
  "handleGenerateLesson r outcome st =
     (case try_block r outcome of
        Inr g \<Rightarrow> st\<lparr>generatedLesson := Some g, isGeneratingLesson := False\<rparr>
      | Inl err \<Rightarrow>
          st\<lparr>generatedLesson := Some (fallback_lesson r), isGeneratingLesson := False\<rparr>)"

subsection \<open>The specified payload\<close>

text \<open>
  A syntactically valid request: the subject is one of the three of the form's select
  and the grade is from 7 to 12.
\<close>

definition valid_request :: "lesson_request \<Rightarrow> bool" where
  "valid_request r =
     (req_subject r \<in> set [''mathematics'', ''english'', ''science''] \<and>
      7 \<le> req_grade r \<and> req_grade r \<le> 12)"

definition has_content :: "generated_lesson \<Rightarrow> bool" where
  "has_content g = (case gl_content g of None \<Rightarrow> False | Some c \<Rightarrow> c \<noteq> [])"

definition has_objectives :: "generated_lesson \<Rightarrow> bool" where
  "has_objectives g = (case gl_objectives g of None \<Rightarrow> False | Some os \<Rightarrow> os \<noteq> [])"

text \<open>The estimated time that the page shows is a number of minutes above 0.\<close>

definition positive_time :: "generated_lesson \<Rightarrow> bool" where
  "positive_time g = (\<exists>n. 0 < n \<and> gl_estimatedTime g = show_int n @ '' minutes'')"

text \<open>A lesson is there, with content, with objectives and with a time above 0.\<close>

definition complete_lesson :: "generated_lesson option \<Rightarrow> bool" where
  "complete_lesson shown =
     (case shown of
        None \<Rightarrow> False
      | Some g \<Rightarrow> has_content g \<and> has_objectives g \<and> positive_time g)"

text \<open>
  The backend that answers the call is not among the files at hand; what it sends is
  the outcome given to the handler. Sections 3 and 4.4 of the specification promise of
  its lesson a content that is not empty and a time that is a whole number of minutes:
  the lesson of a reply is as specified when its content is not empty and its
  \<open>estimatedTime\<close>, if it has one, is not negative and is a number that JavaScript
  prints digit by digit.
\<close>

definition lesson_as_specified :: "api_lesson \<Rightarrow> bool" where
  "lesson_as_specified l =
     ((case les_content l of None \<Rightarrow> False | Some c \<Rightarrow> c \<noteq> []) \<and>
      (case les_estimatedTime l of None \<Rightarrow> True | Some n \<Rightarrow> 0 \<le> n \<and> n < 2 ^ 53))"

definition reply_as_specified :: "api_outcome \<Rightarrow> bool" where
  "reply_as_specified outcome =
     (case outcome of
        Rejected \<Rightarrow> True
      | Resolved response \<Rightarrow>
          (case lesson response of
             None \<Rightarrow> True
           | Some l \<Rightarrow> \<not> success response \<or> lesson_as_specified l))"

text \<open>
  The outcomes after which the handler stores the mock lesson: a rejected call, a
  response without \<open>success\<close>, and a response whose lesson or whose examples are
  missing.
\<close>

definition uses_fallback :: "api_outcome \<Rightarrow> bool" where
  "uses_fallback outcome =
     (case outcome of
        Rejected \<Rightarrow> True
      | Resolved response \<Rightarrow>
          (if success response
           then (case lesson response of None \<Rightarrow> True | Some l \<Rightarrow> les_examples l = None)
           else True))"

text \<open>A request and a curriculum lesson as a response, to run the handler on.\<close>

definition algebra_request :: lesson_request where
  "algebra_request =
     \<lparr>req_subject = ''mathematics'', req_topic = ''algebra'', req_specificFocus = '''',
      req_grade = 8\<rparr>"

definition algebra_api_lesson :: api_lesson where
  "algebra_api_lesson =
     \<lparr>les_id = Some ''17'',
      les_title = Some ''Algebra - Sierra Leone Curriculum'',
      les_subject = Some ''mathematics'',
      les_content = Some ''# Algebra'',
      les_examples = Some
        [\<lparr>ex_title = Some ''Algebra Example from Curriculum'',
          ex_problem = Some ''A trader in Freetown...'',
          ex_description = None,
          ex_explanation = Some ''This example is from the Sierra Leone curriculum'',
          ex_details = None\<rparr>],
      les_keyPoints = None,
      les_key_points = Some [''Understanding algebra fundamentals''],
      les_estimatedTime = None,
      les_objectives = Some [''Understand algebra definitions and concepts''],
      les_estimated_time = Some 45\<rparr>"

section \<open>The lesson backend, from its specification\<close>

text \<open>
  The Keyword Expander, the Content Extractor and the Lesson Assembler run in the
  backend service \<open>content_generator.py\<close>, which the files at hand describe and do
  not contain. Their definitions here follow the specification and the two change
  summaries of the repository.
\<close>

subsection \<open>Keyword Expander\<close>

text \<open>
  Modelled from the spec: the Keyword Expander of \<open>content_generator.py\<close> is missing.
  Section 4.1 gives the contract: a fixed lookup table keyed by substrings of the
  normalized (lowercased, trimmed) topic, looked up by containment, the empty set when
  no entry matches. The table is the one that the summary of the curriculum fixes
  lists under smart keyword matching. Where several keys occur in one topic the terms
  of all of them are returned; the specification does not say otherwise.
\<close>

definition expansion_table :: "(string \<times> string list) list" where
  "expansion_table =
     [(''matter'', [''chemistry'', ''chemical'', ''atomic'', ''molecule'', ''reaction'', ''element'']),
      (''energy'', [''physics'', ''force'', ''motion'', ''power'', ''work'']),
      (''biology'', [''cell'', ''organism'', ''life'', ''living'', ''ecosystem'']),
      (''earth'', [''geology'', ''planet'', ''rock'', ''mineral''])]"

text \<open>White space: the space, the tab, the line feed, the vertical tab, the form feed, the carriage return.\<close>

definition is_space :: "char \<Rightarrow> bool" where
  "is_space c = (c \<in> set [CHR '' '', CHR 0x09, CHR 0x0A, CHR 0x0B, CHR 0x0C, CHR 0x0D])"

definition trim :: "string \<Rightarrow> string" where
  "trim s = rev (dropWhile is_space (rev (dropWhile is_space s)))"

definition normalize_topic :: "string \<Rightarrow> string" where
  "normalize_topic raw_topic = trim (toLowerCase raw_topic)"

definition matching_entries :: "string \<Rightarrow> (string \<times> string list) list" where
  "matching_entries raw_topic =
     filter (\<lambda>entry. str_includes (normalize_topic raw_topic) (fst entry)) expansion_table"

definition expand :: "string \<Rightarrow> string set" where
  "expand raw_topic = set (concat (map snd (matching_entries raw_topic)))"

subsection \<open>Content Extractor: objectives\<close>

text \<open>
  Modelled from the spec: \<open>extract_objectives\<close> of \<open>content_generator.py\<close> is
  missing. Section 4.3: it locates the marker phrase \<open>Students will learn to:\<close>
  without regard to letter case and collects the bullet-prefixed lines that follow,
  until a blank line or a new section heading; with no marker the list is empty. The
  specification leaves the bullet characters and the form of a heading open: here a
  bullet line has \<open>-\<close> or \<open>*\<close> as its first character after white space, as the
  curriculum text quoted in the summaries has, and its text is the rest of the line,
  trimmed; a heading is a line that begins with \<open>#\<close>, the header mark of section 6.
\<close>

definition objectives_marker :: string where
  "objectives_marker = ''students will learn to:''"

fun split_lines :: "string \<Rightarrow> string list" where
  "split_lines [] = [[]]"
| "split_lines (c # cs) =
     (if c = CHR 0x0A then [] # split_lines cs
      else (case split_lines cs of
              [] \<Rightarrow> [[c]]
            | l # ls \<Rightarrow> (c # l) # ls))"

definition has_marker :: "string \<Rightarrow> bool" where
  "has_marker line = str_includes (toLowerCase line) objectives_marker"

definition is_blank :: "string \<Rightarrow> bool" where
  "is_blank line = (dropWhile is_space line = [])"

definition is_heading :: "string \<Rightarrow> bool" where
  "is_heading line = (case dropWhile is_space line of [] \<Rightarrow> False | c # cs \<Rightarrow> c = CHR ''#'')"

definition bullet_text :: "string \<Rightarrow> string option" where
  "bullet_text line =
     (case dropWhile is_space line of
        [] \<Rightarrow> None
      | c # cs \<Rightarrow> if c = CHR ''-'' \<or> c = CHR ''*'' then Some (trim cs) else None)"

fun collect_bullets :: "string list \<Rightarrow> string list" where
  "collect_bullets [] = []"
| "collect_bullets (line # rest) =
     (if is_blank line \<or> is_heading line then []
      else (case bullet_text line of
              Some t \<Rightarrow> t # collect_bullets rest
            | None \<Rightarrow> collect_bullets rest))"

definition extract_objectives :: "string \<Rightarrow> string list" where
  "extract_objectives body =
     (case dropWhile (\<lambda>line. \<not> has_marker line) (split_lines body) of
        [] \<Rightarrow> []
      | marker_line # following \<Rightarrow> collect_bullets following)"

subsection \<open>Lesson Assembler: objectives\<close>

text \<open>
  Modelled from the spec: \<open>assemble\<close> of \<open>content_generator.py\<close> is missing. Section
  3 gives the chunk (its embedding vector plays no part in assembling) and section 4.4
  the objectives of the payload: the objectives extracted from all chunks, each kept
  where it is first seen, and when there are none three generic objectives that
  reference the topic and the subject. The specification fixes their number and what
  they reference and no wording: here each is a verb, then the topic, then the name of
  the subject, and nothing proved of them rests on more of the wording than that.
\<close>

datatype subject = Math | English | Science

definition subject_name :: "subject \<Rightarrow> string" where
  "subject_name s = (case s of Math \<Rightarrow> ''math'' | English \<Rightarrow> ''english'' | Science \<Rightarrow> ''science'')"

record curriculum_chunk =
  chunk_subject :: subject
  chunk_grade :: nat
  chunk_title :: string
  chunk_body :: string

text \<open>The loop that appends an objective unless the list already has it.\<close>

fun first_seen :: "string list \<Rightarrow> string list \<Rightarrow> string list" where
  "first_seen seen [] = []"
| "first_seen seen (x # xs) =
     (if x \<in> set seen then first_seen seen xs else x # first_seen (x # seen) xs)"

definition extracted_objectives :: "curriculum_chunk list \<Rightarrow> string list" where
  "extracted_objectives chunks =
     first_seen [] (concat (map (\<lambda>c. extract_objectives (chunk_body c)) chunks))"

definition generic_objective :: "string \<Rightarrow> string \<Rightarrow> subject \<Rightarrow> string" where
  "generic_objective verb topic_text subj =
     verb @ '' '' @ topic_text @ '' in '' @ subject_name subj"

definition generic_objectives :: "string \<Rightarrow> subject \<Rightarrow> string list" where
  "generic_objectives topic_text subj =
     map (\<lambda>verb. generic_objective verb topic_text subj) [''Understand'', ''Explain'', ''Apply'']"

definition assemble_objectives :: "subject \<Rightarrow> string \<Rightarrow> curriculum_chunk list \<Rightarrow> string list" where
  "assemble_objectives subj topic_text chunks =
     (if extracted_objectives chunks = [] then generic_objectives topic_text subj
      else extracted_objectives chunks)"

text \<open>As specified, an objective references a text when the text occurs in it.\<close>

definition references :: "string \<Rightarrow> string \<Rightarrow> bool" where
  "references objective text = str_includes objective text"

text \<open>Two sections of the grade 10 science curriculum that share one bullet.\<close>

definition atomic_chunk :: curriculum_chunk where
  "atomic_chunk =
     \<lparr>chunk_subject = Science, chunk_grade = 10,
      chunk_title = ''Section 2.1: Atomic Structure and Periodic Table'',
      chunk_body = ''Section 2.1\<newline>Students will learn to:\<newline>- Understand atomic structure\<newline>- Explain chemical bonding\<newline>\<newline>Practical applications:\<newline>- Studying water purification methods''\<rparr>"

definition acids_chunk :: curriculum_chunk where
  "acids_chunk =
     \<lparr>chunk_subject = Science, chunk_grade = 10,
      chunk_title = ''Section 2.3: Acids, Bases, and Solutions'',
      chunk_body = ''STUDENTS WILL LEARN TO:\<newline>* Explain chemical bonding\<newline>  - Understand pH and acidity\<newline># Notes\<newline>- Water quality testing''\<rparr>"

section \<open>Proofs: the search filter\<close>

lemma str_includes_iff_sublist: "str_includes hay needle \<longleftrightarrow> sublist needle hay"
  by (induction hay) (simp_all add: sublist_Cons_right)

lemma str_includes_empty_needle: "str_includes hay []"
  by (cases hay) simp_all

lemma map_eq_append3:
  "map f s = ps @ m @ ss \<Longrightarrow> \<exists>pre mid suf. s = pre @ mid @ suf \<and> map f mid = m"
  by (metis map_eq_append_conv)

lemma str_includes_iff_ci_substring:
  "str_includes (toLower s) (toLower q) \<longleftrightarrow> ci_substring toLower q s"
  by (simp add: str_includes_iff_sublist sublist_def ci_substring_def)

lemma ci_substring_unit_by_unit:
  assumes "\<forall>s. toLower s = map fold_unit s"
  shows "ci_substring toLower q s \<longleftrightarrow> part_equals_up_to_case fold_unit q s"
proof
  assume "ci_substring toLower q s"
  then obtain ps ss where "map fold_unit s = ps @ map fold_unit q @ ss"
    using assms unfolding ci_substring_def by auto
  from map_eq_append3 [OF this] show "part_equals_up_to_case fold_unit q s"
    unfolding part_equals_up_to_case_def by blast
next
  assume "part_equals_up_to_case fold_unit q s"
  then obtain pre mid suf where s: "s = pre @ mid @ suf"
    and m: "map fold_unit mid = map fold_unit q"
    unfolding part_equals_up_to_case_def by blast
  have "map fold_unit s = map fold_unit pre @ map fold_unit q @ map fold_unit suf"
    using s m by simp
  then show "ci_substring toLower q s"
    using assms unfolding ci_substring_def by auto
qed

lemma topic_matches_iff_keeps: "topic_matches toLower q t \<longleftrightarrow> keeps_topic toLower q t"
  by (simp add: topic_matches_def keeps_topic_def list_ex_iff str_includes_iff_ci_substring)

lemma topic_matches_empty_query: "toLower [] = [] \<Longrightarrow> topic_matches toLower [] t"
  by (simp add: topic_matches_def str_includes_empty_needle)

text \<open>
  C10. For every topics list and search query, of whatever code units, and for the
  runtime's case map \<open>toLower\<close>, the filtered list keeps exactly the topics for which
  the query is a case-insensitive substring of the topic's name or of at least one of
  its subtopics; the empty query, which \<open>toLowerCase\<close> leaves empty, keeps every
  topic; and the retained topics stand in the order they had in the topics list. Where
  the case map folds unit by unit, the topics kept are those in which a contiguous part
  of the name or of a subtopic equals the query up to letter case.
\<close>

theorem filteredTopics_keeps_exactly:
  "filteredTopics toLower topics q = filter (keeps_topic toLower q) topics \<and>
   (\<forall>t. t \<in> set (filteredTopics toLower topics q) \<longleftrightarrow>
      t \<in> set topics \<and> keeps_topic toLower q t) \<and>
   (toLower [] = [] \<longrightarrow> filteredTopics toLower topics [] = topics) \<and>
   subseq (filteredTopics toLower topics q) topics \<and>
   ((\<forall>s. toLower s = map fold_unit s) \<longrightarrow>
      (\<forall>t. keeps_topic toLower q t \<longleftrightarrow>
         part_equals_up_to_case fold_unit q (topic t) \<or>
         (\<exists>s \<in> set (subtopics t). part_equals_up_to_case fold_unit q s)))"
proof -
  have eq: "filteredTopics toLower topics q = filter (keeps_topic toLower q) topics"
    unfolding filteredTopics_def
    by (rule filter_cong) (simp_all add: topic_matches_iff_keeps)
  then have mem: "\<forall>t. t \<in> set (filteredTopics toLower topics q) \<longleftrightarrow>
      t \<in> set topics \<and> keeps_topic toLower q t"
    by simp
  have all: "toLower [] = [] \<longrightarrow> filteredTopics toLower topics [] = topics"
    unfolding filteredTopics_def by (simp add: topic_matches_empty_query)
  have sub: "subseq (filteredTopics toLower topics q) topics"
    unfolding filteredTopics_def by simp
  have fu: "(\<forall>s. toLower s = map fold_unit s) \<longrightarrow>
      (\<forall>t. keeps_topic toLower q t \<longleftrightarrow>
         part_equals_up_to_case fold_unit q (topic t) \<or>
         (\<exists>s \<in> set (subtopics t). part_equals_up_to_case fold_unit q s))"
    using ci_substring_unit_by_unit [of toLower fold_unit q]
    by (simp add: keeps_topic_def)
  from eq mem all sub fu show ?thesis
    by (intro conjI)
qed

lemma filteredTopics_sample_run:
  "filteredTopics toLowerCase [algebra_topic, geometry_topic, statistics_topic, energie_topic]
     ''aNg'' = [geometry_topic, statistics_topic]"
  by code_simp

lemma filteredTopics_accent_run:
  "filteredTopics toLowerCase [algebra_topic, geometry_topic, statistics_topic, energie_topic]
     [CHR 0xE9] = [energie_topic]"
  by code_simp

lemma toLowerCase_unit_by_unit: "\<forall>s. toLowerCase s = map toLowerCase_char s"
  by (simp add: toLowerCase_def)

lemma toLowerCase_empty: "toLowerCase [] = []"
  by (simp add: toLowerCase_def)

theorem filteredTopics_keeps_exactly_witness:
  "filteredTopics toLowerCase [algebra_topic, geometry_topic, statistics_topic, energie_topic]
     ''aNg'' = [geometry_topic, statistics_topic] \<and>
   keeps_topic toLowerCase ''aNg'' statistics_topic \<and>
   (part_equals_up_to_case toLowerCase_char ''aNg'' (topic statistics_topic) \<or>
    (\<exists>s \<in> set (subtopics statistics_topic). part_equals_up_to_case toLowerCase_char ''aNg'' s)) \<and>
   filteredTopics toLowerCase [algebra_topic, geometry_topic, statistics_topic, energie_topic]
     [CHR 0xE9] = [energie_topic] \<and>
   keeps_topic toLowerCase [CHR 0xE9] energie_topic \<and>
   toLowerCase [] = [] \<and>
   filteredTopics toLowerCase [algebra_topic, geometry_topic, statistics_topic, energie_topic] [] =
     [algebra_topic, geometry_topic, statistics_topic, energie_topic]"
proof -
  let ?ts = "[algebra_topic, geometry_topic, statistics_topic, energie_topic]"
  note th = filteredTopics_keeps_exactly
    [where toLower = toLowerCase and topics = ?ts and fold_unit = toLowerCase_char]
  note mem = th [THEN conjunct2, THEN conjunct1, rule_format]
  note all = th [THEN conjunct2, THEN conjunct2, THEN conjunct1]
  note fu = th [THEN conjunct2, THEN conjunct2, THEN conjunct2, THEN conjunct2]
  have "statistics_topic \<in> set (filteredTopics toLowerCase ?ts ''aNg'')"
    unfolding filteredTopics_sample_run by simp
  then have s: "keeps_topic toLowerCase ''aNg'' statistics_topic"
    unfolding mem [of _ "''aNg''"] by (rule conjunct2)
  from fu [of "''aNg''"] toLowerCase_unit_by_unit
  have "\<forall>t. keeps_topic toLowerCase ''aNg'' t \<longleftrightarrow>
      part_equals_up_to_case toLowerCase_char ''aNg'' (topic t) \<or>
      (\<exists>s \<in> set (subtopics t). part_equals_up_to_case toLowerCase_char ''aNg'' s)"
    by (rule mp)
  with s have p: "part_equals_up_to_case toLowerCase_char ''aNg'' (topic statistics_topic) \<or>
      (\<exists>s \<in> set (subtopics statistics_topic). part_equals_up_to_case toLowerCase_char ''aNg'' s)"
    by simp
  have "energie_topic \<in> set (filteredTopics toLowerCase ?ts [CHR 0xE9])"
    unfolding filteredTopics_accent_run by simp
  then have e: "keeps_topic toLowerCase [CHR 0xE9] energie_topic"
    unfolding mem [of _ "[CHR 0xE9]"] by (rule conjunct2)
  from all toLowerCase_empty have a: "filteredTopics toLowerCase ?ts [] = ?ts"
    by (rule mp)
  from filteredTopics_sample_run s p filteredTopics_accent_run e toLowerCase_empty a
  show ?thesis
    by (intro conjI)
qed

section \<open>Proofs: the quiz component\<close>

lemma questions_length: "length questions = 3"
  by (simp add: questions_def)

lemma questions_ids: "map qid questions = [1, 2, 3]"
  by (simp add: questions_def)

lemma current_question_id:
  "i < length questions \<Longrightarrow> qid (questions ! i) \<in> set (map qid questions)"
  by (metis length_map nth_map nth_mem)

lemma answers_ok_initial: "answers_ok initial_assessment"
  by (simp add: answers_ok_def initial_assessment_def object_keys_def questions_length)

lemma answers_ok_handleAnswerChange:
  assumes "answers_ok s" and "k \<in> set (map qid questions)"
  shows "answers_ok (handleAnswerChange k a s)"
proof -
  have d: "distinct (map fst (AList.update k a (answers s)))"
    using assms(1) by (simp add: answers_ok_def object_keys_def distinct_update)
  have "fst ` set (AList.update k a (answers s)) = {k} \<union> fst ` set (answers s)"
    by (rule dom_update)
  then have sub: "set (map fst (AList.update k a (answers s))) \<subseteq> set (map qid questions)"
    using assms by (simp add: answers_ok_def object_keys_def)
  from d sub assms(1) show ?thesis
    by (simp add: answers_ok_def handleAnswerChange_def object_keys_def)
qed

lemma answers_ok_step:
  assumes ok: "answers_ok s" and st: "step e s = Some s'"
  shows "answers_ok s'"
proof (cases e)
  case (AnswerChange a)
  with st have cur: "currentQuestion s < length questions"
    and s': "s' = handleAnswerChange (qid (questions ! currentQuestion s)) a s"
    by (simp_all split: if_splits)
  from answers_ok_handleAnswerChange [OF ok current_question_id [OF cur]] s'
  show ?thesis by simp
next
  case ClickNext
  with st ok show ?thesis
    by (auto simp: answers_ok_def handleNext_def split: if_splits)
next
  case ClickPrevious
  with st ok show ?thesis
    by (auto simp: answers_ok_def handlePrevious_def split: if_splits)
next
  case ClickSubmit
  with st ok show ?thesis
    by (auto simp: answers_ok_def handleSubmit_def split: if_splits)
next
  case ClickRetake
  with st ok show ?thesis
    by (auto simp: answers_ok_def retake_def object_keys_def questions_length split: if_splits)
next
  case TimerTick
  with st ok show ?thesis
    by (auto simp: answers_ok_def timer_tick_def split: if_splits)
next
  case (SubmitTimeout rnd)
  with st ok show ?thesis
    by (auto simp: answers_ok_def submit_callback_def split: if_splits option.splits)
qed

lemma reachable_answers_ok: "reachable s \<Longrightarrow> answers_ok s"
  by (induction rule: reachable.induct) (auto intro: answers_ok_initial answers_ok_step)

lemma run_reachable: "reachable s \<Longrightarrow> run es s = Some s' \<Longrightarrow> reachable s'"
proof (induction es arbitrary: s)
  case Nil
  then show ?case by simp
next
  case (Cons e es)
  then show ?case
    by (auto split: option.splits intro: reachable_step)
qed

text \<open>Distinct keys drawn from the question ids, as many as there are questions, are all of them.\<close>

lemma all_keys_present:
  assumes "distinct ks" and "set ks \<subseteq> set (map qid questions)"
    and "length questions \<le> length ks"
  shows "set ks = set (map qid questions)"
proof -
  have "card (set (map qid questions)) \<le> length questions"
    by (metis card_length length_map)
  also have "\<dots> \<le> card (set ks)"
    using assms(1,3) by (simp add: distinct_card)
  finally show ?thesis
    using assms(2) by (simp add: card_seteq)
qed

lemma answered_of_key:
  "k \<in> set (object_keys obj) \<Longrightarrow> map_of obj k \<noteq> None"
  by (simp add: object_keys_def map_of_eq_None_iff)

text \<open>
  C9. In every reachable state of the Assessment component the submit action can fire
  only when \<open>answers\<close> has an entry for every question, and the Submit control cannot
  fire while a submission is in flight or while fewer keys than questions are present.
\<close>

theorem submit_needs_every_answer:
  assumes "reachable s"
  shows "(step ClickSubmit s \<noteq> None \<longrightarrow>
            (\<forall>q \<in> set questions. map_of (answers s) (qid q) \<noteq> None)) \<and>
         (loading s \<or> length (object_keys (answers s)) < length questions \<longrightarrow>
            step ClickSubmit s = None)"
proof (intro conjI impI)
  assume fires: "step ClickSubmit s \<noteq> None"
  then have enough: "length questions \<le> length (object_keys (answers s))"
    by (simp add: submit_disabled_def split: if_splits)
  from reachable_answers_ok [OF assms]
  have "distinct (object_keys (answers s))"
    and "set (object_keys (answers s)) \<subseteq> set (map qid questions)"
    by (simp_all add: answers_ok_def)
  from all_keys_present [OF this enough]
  have keys: "set (object_keys (answers s)) = set (map qid questions)" .
  show "\<forall>q \<in> set questions. map_of (answers s) (qid q) \<noteq> None"
  proof
    fix q assume "q \<in> set questions"
    then have "qid q \<in> set (object_keys (answers s))"
      using keys by simp
    then show "map_of (answers s) (qid q) \<noteq> None"
      by (rule answered_of_key)
  qed
next
  assume "loading s \<or> length (object_keys (answers s)) < length questions"
  then show "step ClickSubmit s = None"
    by (simp add: submit_disabled_def)
qed

lemma run_to_full_answers_state:
  "run [AnswerChange ''42'', ClickNext, AnswerChange ''x'', AnswerChange ''4'', TimerTick,
        ClickNext, TimerTick, AnswerChange ''5''] initial_assessment =
     Some full_answers_state"
  by code_simp

lemma submit_fires_in_full_answers_state:
  "step ClickSubmit full_answers_state =
     Some (full_answers_state\<lparr>loading := True, submitTimer := Some 598\<rparr>)"
  by (simp add: full_answers_state_def submit_rendered_def submit_disabled_def
      results_view_def object_keys_def questions_def handleSubmit_def)

theorem submit_needs_every_answer_witness:
  "reachable full_answers_state \<and>
   step ClickSubmit full_answers_state \<noteq> None \<and>
   map_of (answers full_answers_state) 1 = Some ''42'' \<and>
   map_of (answers full_answers_state) 2 \<noteq> None \<and>
   map_of (answers full_answers_state) 3 \<noteq> None \<and>
   step ClickSubmit (full_answers_state\<lparr>loading := True, submitTimer := Some 598\<rparr>) = None"
proof -
  have r: "reachable full_answers_state"
    by (rule run_reachable [OF reachable_init run_to_full_answers_state])
  have r': "reachable (full_answers_state\<lparr>loading := True, submitTimer := Some 598\<rparr>)"
    by (rule reachable_step [OF r submit_fires_in_full_answers_state])
  have fires: "step ClickSubmit full_answers_state \<noteq> None"
    unfolding submit_fires_in_full_answers_state by simp
  from submit_needs_every_answer [OF r] fires
  have "\<forall>q \<in> set questions. map_of (answers full_answers_state) (qid q) \<noteq> None"
    by blast
  then have a: "map_of (answers full_answers_state) 2 \<noteq> None"
    and b: "map_of (answers full_answers_state) 3 \<noteq> None"
    by (simp_all add: questions_def)
  have c: "map_of (answers full_answers_state) 1 = Some ''42''"
    by (simp add: full_answers_state_def)
  from submit_needs_every_answer [OF r']
  have d: "step ClickSubmit (full_answers_state\<lparr>loading := True, submitTimer := Some 598\<rparr>) = None"
    by simp
  from r fires a b c d show ?thesis
    by blast
qed

lemma random_score_range:
  "0 \<le> rnd \<Longrightarrow> rnd < 1 \<Longrightarrow> 60 \<le> random_score rnd \<and> random_score rnd \<le> 99"
  unfolding random_score_def by (simp add: floor_less_iff le_floor_iff)

lemma floor_of_score_share:
  "\<lfloor>(real_of_int sc / 100) * real (length questions)\<rfloor> = (sc * 3) div 100"
proof -
  have "(real_of_int sc / 100) * real (length questions) = real_of_int (sc * 3) / real_of_int 100"
    by (simp add: questions_length)
  then show ?thesis
    by (simp only: floor_divide_of_int_eq)
qed

lemma results_after_submit:
  "results (submit_callback rnd (handleSubmit s)) = Some (submit_results rnd (timeRemaining s))"
  by (simp add: submit_callback_def handleSubmit_def)

text \<open>
  C3. The score that \<open>handleSubmit\<close> reports does not depend on the answers: started
  from two states that differ only in \<open>answers\<close>, with the same random draw, the
  results are the same. The score is \<open>Math.floor(Math.random() * 40) + 60\<close>, between
  60 and 99, and \<open>correctAnswers\<close> is the floor of score/100 times the number of
  questions, computed from the score and not from the answers.
\<close>

theorem score_independent_of_answers:
  "results (submit_callback rnd (handleSubmit (s\<lparr>answers := a1\<rparr>))) =
     results (submit_callback rnd (handleSubmit (s\<lparr>answers := a2\<rparr>))) \<and>
   results (submit_callback rnd (handleSubmit s)) =
     Some (submit_results rnd (timeRemaining s)) \<and>
   (0 \<le> rnd \<and> rnd < 1 \<longrightarrow>
      60 \<le> score (submit_results rnd t) \<and> score (submit_results rnd t) \<le> 99) \<and>
   correctAnswers (submit_results rnd t) = (score (submit_results rnd t) * 3) div 100"
proof -
  have same: "results (submit_callback rnd (handleSubmit (s\<lparr>answers := a1\<rparr>))) =
      results (submit_callback rnd (handleSubmit (s\<lparr>answers := a2\<rparr>)))"
    by (simp add: results_after_submit)
  have sc: "score (submit_results rnd t) = random_score rnd"
    by (simp add: submit_results_def)
  have ca: "correctAnswers (submit_results rnd t) = (random_score rnd * 3) div 100"
    unfolding submit_results_def
    by (simp only: assessment_results.select_convs floor_of_score_share)
  from same results_after_submit [of rnd s] random_score_range [of rnd] sc ca
  show ?thesis by simp
qed

lemma count_correct_samples:
  "count_correct [(1, ''42''), (2, ''4''), (3, ''6'')] = 3"
  "count_correct [(1, ''40''), (2, ''5''), (3, ''7'')] = 0"
  by (simp_all add: count_correct_def questions_def)

theorem score_independent_of_answers_witness:
  "results (submit_callback (1 / 2) (handleSubmit
       (full_answers_state\<lparr>answers := [(1, ''42''), (2, ''4''), (3, ''6'')]\<rparr>))) =
     results (submit_callback (1 / 2) (handleSubmit
       (full_answers_state\<lparr>answers := [(1, ''40''), (2, ''5''), (3, ''7'')]\<rparr>))) \<and>
   (0::real) \<le> 1 / 2 \<and> (1 / 2 :: real) < 1 \<and>
   60 \<le> score (submit_results (1 / 2) 598) \<and>
   score (submit_results (1 / 2) 598) \<le> 99 \<and>
   score (submit_results (1 / 2) 598) = 80 \<and>
   correctAnswers (submit_results (1 / 2) 598) = 2 \<and>
   count_correct [(1, ''42''), (2, ''4''), (3, ''6'')] = 3 \<and>
   count_correct [(1, ''40''), (2, ''5''), (3, ''7'')] = 0"
proof -
  note th = score_independent_of_answers [where rnd = "1 / 2" and s = full_answers_state
      and ?a1.0 = "[(1, ''42''), (2, ''4''), (3, ''6'')]"
      and ?a2.0 = "[(1, ''40''), (2, ''5''), (3, ''7'')]" and t = 598]
  note same = th [THEN conjunct1]
  note range = th [THEN conjunct2, THEN conjunct2, THEN conjunct1]
  note share = th [THEN conjunct2, THEN conjunct2, THEN conjunct2]
  have half: "(0::real) \<le> 1 / 2 \<and> (1 / 2 :: real) < 1"
    by simp
  from range half
  have r: "60 \<le> score (submit_results (1 / 2) 598) \<and> score (submit_results (1 / 2) 598) \<le> 99"
    by (rule mp)
  have sc: "score (submit_results (1 / 2) 598) = 80"
    by (simp add: submit_results_def random_score_def)
  have ca: "correctAnswers (submit_results (1 / 2) 598) = 2"
    unfolding share sc by simp
  from same half r sc ca count_correct_samples show ?thesis
    by (intro conjI) simp_all
qed

section \<open>Proofs: requesting a lesson\<close>

lemma handleGenerateLesson_on_fallback:
  assumes "uses_fallback outcome"
  shows "handleGenerateLesson r outcome st =
           st\<lparr>generatedLesson := Some (fallback_lesson r), isGeneratingLesson := False\<rparr>"
  using assms
  by (auto simp: handleGenerateLesson_def try_block_def uses_fallback_def transform_lesson_def
      split: api_outcome.splits option.splits if_splits)

lemma handleGenerateLesson_on_success:
  assumes "\<not> uses_fallback outcome"
  shows "\<exists>response l g. outcome = Resolved response \<and> success response \<and>
           lesson response = Some l \<and> transform_lesson l = Inr g \<and>
           handleGenerateLesson r outcome st =
             st\<lparr>generatedLesson := Some g, isGeneratingLesson := False\<rparr>"
  using assms
  by (auto simp: handleGenerateLesson_def try_block_def uses_fallback_def transform_lesson_def
      split: api_outcome.splits option.splits if_splits)

lemma show_int_25: "show_int 25 = ''25''"
  by code_simp

lemma fallback_lesson_facts:
  "has_content (fallback_lesson r)"
  "positive_time (fallback_lesson r)"
  "gl_objectives (fallback_lesson r) = None"
proof -
  show "has_content (fallback_lesson r)"
    by (simp add: has_content_def fallback_lesson_def)
  have h: "(0::int) < 25 \<and> gl_estimatedTime (fallback_lesson r) = show_int 25 @ '' minutes''"
    by (simp add: fallback_lesson_def show_int_25)
  show "positive_time (fallback_lesson r)"
    unfolding positive_time_def by (rule exI [of _ 25]) (rule h)
  show "gl_objectives (fallback_lesson r) = None"
    by (simp add: fallback_lesson_def)
qed

lemma estimated_minutes_positive:
  "lesson_as_specified l \<Longrightarrow> 0 < estimated_minutes l"
  by (auto simp: lesson_as_specified_def estimated_minutes_def split: option.splits)

lemma transformed_lesson_complete:
  assumes "lesson_as_specified l" and "transform_lesson l = Inr g"
  shows "has_content g \<and> positive_time g"
proof -
  from assms(2) have c: "gl_content g = les_content l"
    and t: "gl_estimatedTime g = show_int (estimated_minutes l) @ '' minutes''"
    by (auto simp: transform_lesson_def split: option.splits)
  from assms(1) c have "has_content g"
    by (simp add: lesson_as_specified_def has_content_def)
  moreover have "0 < estimated_minutes l \<and>
      gl_estimatedTime g = show_int (estimated_minutes l) @ '' minutes''"
    using estimated_minutes_positive [OF assms(1)] t by (intro conjI)
  then have "positive_time g"
    unfolding positive_time_def by (rule exI [of _ "estimated_minutes l"])
  ultimately show ?thesis ..
qed

text \<open>
  C1, as amended. For every lesson request and every outcome of the awaited call in
  which the lesson of a successful reply is as specified, the handler ends with a
  lesson stored (never null) and \<open>isGeneratingLesson\<close> false, and the stored lesson
  has content that is not empty and an estimated time above 0. This includes the
  degraded paths: when the call is rejected, as it is when the server or the store
  cannot be reached, when it answers without \<open>success\<close>, or when its lesson cannot be
  read, the stored lesson is the mock lesson of the handler.
\<close>

theorem handleGenerateLesson_stores_lesson_with_content:
  assumes "reply_as_specified outcome"
  shows "\<exists>g. generatedLesson (handleGenerateLesson r outcome st) = Some g \<and>
           \<not> isGeneratingLesson (handleGenerateLesson r outcome st) \<and>
           has_content g \<and> positive_time g \<and>
           (uses_fallback outcome \<longrightarrow> g = fallback_lesson r)"
proof (cases "uses_fallback outcome")
  case True
  from handleGenerateLesson_on_fallback [OF True, of r st] fallback_lesson_facts(1,2) [of r]
  show ?thesis by simp
next
  case False
  from handleGenerateLesson_on_success [OF False, of r st]
  obtain response l g where o: "outcome = Resolved response" and su: "success response"
    and le: "lesson response = Some l" and tr: "transform_lesson l = Inr g"
    and h: "handleGenerateLesson r outcome st =
      st\<lparr>generatedLesson := Some g, isGeneratingLesson := False\<rparr>"
    by blast
  from assms o su le have "lesson_as_specified l"
    by (simp add: reply_as_specified_def)
  from transformed_lesson_complete [OF this tr] h False show ?thesis
    by simp
qed

lemma algebra_request_valid: "valid_request algebra_request"
  by (simp add: valid_request_def algebra_request_def)

lemma algebra_reply_as_specified:
  "reply_as_specified (Resolved \<lparr>success = True, lesson = Some algebra_api_lesson\<rparr>)"
  by (simp add: reply_as_specified_def lesson_as_specified_def algebra_api_lesson_def)

lemma rejected_as_specified: "reply_as_specified Rejected"
  by (simp add: reply_as_specified_def)

lemma rejected_uses_fallback: "uses_fallback Rejected"
  by (simp add: uses_fallback_def)

theorem handleGenerateLesson_stores_lesson_with_content_witness:
  "valid_request algebra_request \<and>
   reply_as_specified Rejected \<and>
   generatedLesson (handleGenerateLesson algebra_request Rejected initial_dashboard) =
     Some (fallback_lesson algebra_request) \<and>
   has_content (fallback_lesson algebra_request) \<and>
   positive_time (fallback_lesson algebra_request) \<and>
   reply_as_specified (Resolved \<lparr>success = True, lesson = Some algebra_api_lesson\<rparr>) \<and>
   (\<exists>g. generatedLesson (handleGenerateLesson algebra_request
            (Resolved \<lparr>success = True, lesson = Some algebra_api_lesson\<rparr>)
            initial_dashboard) = Some g \<and>
        has_content g \<and> positive_time g)"
proof -
  from handleGenerateLesson_stores_lesson_with_content
    [OF rejected_as_specified, of algebra_request initial_dashboard]
  obtain g where g: "generatedLesson
      (handleGenerateLesson algebra_request Rejected initial_dashboard) = Some g"
    and c: "has_content g" and t: "positive_time g"
    and f: "uses_fallback Rejected \<longrightarrow> g = fallback_lesson algebra_request"
    by blast
  from f rejected_uses_fallback have e: "g = fallback_lesson algebra_request"
    by (rule mp)
  from handleGenerateLesson_stores_lesson_with_content
    [OF algebra_reply_as_specified, of algebra_request initial_dashboard]
  have s: "\<exists>g. generatedLesson (handleGenerateLesson algebra_request
            (Resolved \<lparr>success = True, lesson = Some algebra_api_lesson\<rparr>)
            initial_dashboard) = Some g \<and>
        has_content g \<and> positive_time g"
    by blast
  from g have g': "generatedLesson
      (handleGenerateLesson algebra_request Rejected initial_dashboard) =
      Some (fallback_lesson algebra_request)"
    unfolding e .
  from c have c': "has_content (fallback_lesson algebra_request)"
    unfolding e .
  from t have t': "positive_time (fallback_lesson algebra_request)"
    unfolding e .
  from algebra_request_valid rejected_as_specified g' c' t' algebra_reply_as_specified s
  show ?thesis
    by (intro conjI)
qed

text \<open>
  C1 as it is stated fails: for a valid request whose call is rejected, as it is
  when the store or the server cannot be reached, the lesson shown has no objectives.
\<close>

theorem rejected_call_lesson_counterexample:
  "valid_request algebra_request \<and>
   \<not> complete_lesson
       (generatedLesson (handleGenerateLesson algebra_request Rejected initial_dashboard))"
proof -
  have stored: "generatedLesson
      (handleGenerateLesson algebra_request Rejected initial_dashboard) =
      Some (fallback_lesson algebra_request)"
    by (simp add: handleGenerateLesson_def try_block_def)
  have "\<not> has_objectives (fallback_lesson algebra_request)"
    unfolding has_objectives_def fallback_lesson_facts(3) by simp
  then have "\<not> complete_lesson (Some (fallback_lesson algebra_request))"
    unfolding complete_lesson_def by simp
  with algebra_request_valid show ?thesis
    unfolding stored by (intro conjI)
qed

section \<open>Proofs: the lesson backend\<close>

subsection \<open>Objectives come from bullet lines after the marker\<close>

lemma first_line_prefix: "split_lines s = l # ls \<Longrightarrow> prefix l s"
  by (induction s arbitrary: l ls) (auto split: if_splits list.splits)

lemma split_lines_nonempty: "split_lines s \<noteq> []"
  by (cases s) (auto split: list.splits)

lemma line_sublist: "l \<in> set (split_lines s) \<Longrightarrow> sublist l s"
proof (induction s arbitrary: l)
  case Nil
  then show ?case by simp
next
  case (Cons c cs)
  show ?case
  proof (cases "c = CHR 0x0A")
    case True
    with Cons.prems have "l = [] \<or> l \<in> set (split_lines cs)" by simp
    then show ?thesis
      using Cons.IH by (auto simp: sublist_Cons_right)
  next
    case False
    obtain l0 ls where sp: "split_lines cs = l0 # ls"
      using split_lines_nonempty [of cs] by (cases "split_lines cs") auto
    with False Cons.prems have "l = c # l0 \<or> l \<in> set ls" by simp
    then show ?thesis
    proof
      assume "l = c # l0"
      with first_line_prefix [OF sp] show ?thesis
        by (simp add: prefix_imp_sublist)
    next
      assume "l \<in> set ls"
      with sp Cons.IH [of l] show ?thesis
        by (simp add: sublist_Cons_right)
    qed
  qed
qed

lemma trim_sublist: "sublist (trim s) s"
proof -
  have "prefix (rev (dropWhile is_space (rev (dropWhile is_space s)))) (dropWhile is_space s)"
    using suffix_dropWhile [of is_space "rev (dropWhile is_space s)"]
    by (simp add: suffix_to_prefix)
  then have "sublist (trim s) (dropWhile is_space s)"
    unfolding trim_def by (rule prefix_imp_sublist)
  moreover have "sublist (dropWhile is_space s) s"
    by (rule suffix_imp_sublist [OF suffix_dropWhile])
  ultimately show ?thesis
    by (rule sublist_order.order_trans)
qed

lemma bullet_text_sublist: "bullet_text line = Some t \<Longrightarrow> sublist t line"
proof -
  assume a: "bullet_text line = Some t"
  then obtain c cs where d: "dropWhile is_space line = c # cs" and t: "t = trim cs"
    by (auto simp: bullet_text_def split: list.splits if_splits)
  have "sublist cs (c # cs)" by (simp add: sublist_Cons_right)
  with d have "sublist cs (dropWhile is_space line)" by simp
  then have "sublist cs line"
    using suffix_imp_sublist [OF suffix_dropWhile, of is_space line]
    by (rule sublist_order.order_trans)
  with trim_sublist [of cs] t show ?thesis
    using sublist_order.order_trans by blast
qed

lemma collect_bullets_from_lines:
  "t \<in> set (collect_bullets ls) \<Longrightarrow> \<exists>line \<in> set ls. bullet_text line = Some t"
  by (induction ls) (auto split: if_splits option.splits)

lemma extract_objectives_from_lines:
  assumes "t \<in> set (extract_objectives body)"
  shows "\<exists>line \<in> set (split_lines body). bullet_text line = Some t"
proof (cases "dropWhile (\<lambda>line. \<not> has_marker line) (split_lines body)")
  case Nil
  with assms show ?thesis
    by (simp add: extract_objectives_def)
next
  case (Cons m following)
  with assms have "t \<in> set (collect_bullets following)"
    by (simp add: extract_objectives_def)
  from collect_bullets_from_lines [OF this] obtain line where
    "line \<in> set following" and b: "bullet_text line = Some t" by blast
  then have "line \<in> set (dropWhile (\<lambda>line. \<not> has_marker line) (split_lines body))"
    unfolding Cons by simp
  then have "line \<in> set (split_lines body)" by (rule set_dropWhileD)
  with b show ?thesis by blast
qed

lemma marker_line_in_body:
  assumes "line \<in> set (split_lines body)" and "has_marker line"
  shows "sublist objectives_marker (toLowerCase body)"
proof -
  from assms(2) have "sublist objectives_marker (toLowerCase line)"
    by (simp add: has_marker_def str_includes_iff_sublist)
  moreover have "sublist (toLowerCase line) (toLowerCase body)"
    unfolding toLowerCase_def by (rule map_mono_sublist [OF line_sublist [OF assms(1)]])
  ultimately show ?thesis
    by (rule sublist_order.order_trans)
qed

lemma extract_objectives_without_marker:
  assumes "\<not> sublist objectives_marker (toLowerCase body)"
  shows "extract_objectives body = []"
proof -
  have "\<forall>line \<in> set (split_lines body). \<not> has_marker line"
    using assms marker_line_in_body by blast
  then have d: "dropWhile (\<lambda>line. \<not> has_marker line) (split_lines body) = []"
    by simp
  show ?thesis
    unfolding extract_objectives_def d by simp
qed

text \<open>
  C8. \<open>extract_objectives\<close> is a function of the body alone, so two runs on one
  body give one list; when the marker phrase occurs nowhere in the body, in whatever
  letter case, the list is empty; and every objective it returns is the text of a
  bullet line of the body.
\<close>

theorem extract_objectives_repeatable_and_empty_without_marker:
  "(\<forall>first_run second_run.
      first_run = extract_objectives body \<and> second_run = extract_objectives body \<longrightarrow>
      first_run = second_run) \<and>
   (\<not> sublist objectives_marker (toLowerCase body) \<longrightarrow> extract_objectives body = []) \<and>
   (\<forall>t \<in> set (extract_objectives body).
      \<exists>line \<in> set (split_lines body). bullet_text line = Some t)"
  using extract_objectives_without_marker [of body] extract_objectives_from_lines [of _ body]
  by blast

lemma applications_text_has_no_marker:
  "\<not> str_includes (toLowerCase ''Practical applications:\<newline>- Water quality testing'')
       objectives_marker"
  by code_simp

lemma extract_objectives_atomic_chunk:
  "extract_objectives (chunk_body atomic_chunk) =
     [''Understand atomic structure'', ''Explain chemical bonding'']"
  by code_simp

theorem extract_objectives_repeatable_and_empty_without_marker_witness:
  "\<not> sublist objectives_marker
       (toLowerCase ''Practical applications:\<newline>- Water quality testing'') \<and>
   extract_objectives ''Practical applications:\<newline>- Water quality testing'' = [] \<and>
   extract_objectives (chunk_body atomic_chunk) =
     [''Understand atomic structure'', ''Explain chemical bonding''] \<and>
   (\<exists>line \<in> set (split_lines (chunk_body atomic_chunk)).
      bullet_text line = Some ''Explain chemical bonding'')"
proof -
  have no: "\<not> sublist objectives_marker
      (toLowerCase ''Practical applications:\<newline>- Water quality testing'')"
    using applications_text_has_no_marker unfolding str_includes_iff_sublist .
  note empty = extract_objectives_repeatable_and_empty_without_marker
    [of "''Practical applications:\<newline>- Water quality testing''",
      THEN conjunct2, THEN conjunct1]
  from empty no
  have e: "extract_objectives ''Practical applications:\<newline>- Water quality testing'' = []"
    by (rule mp)
  note from_line = extract_objectives_repeatable_and_empty_without_marker
    [of "chunk_body atomic_chunk", THEN conjunct2, THEN conjunct2]
  have "''Explain chemical bonding'' \<in> set (extract_objectives (chunk_body atomic_chunk))"
    unfolding extract_objectives_atomic_chunk by simp
  with from_line have b: "\<exists>line \<in> set (split_lines (chunk_body atomic_chunk)).
      bullet_text line = Some ''Explain chemical bonding''"
    by (rule bspec)
  from no e extract_objectives_atomic_chunk b show ?thesis
    by (intro conjI)
qed

subsection \<open>Keyword expansion\<close>

lemma expand_no_match:
  assumes "\<forall>key \<in> set (map fst expansion_table). \<not> sublist key (normalize_topic raw_topic)"
  shows "expand raw_topic = {}"
proof -
  have "matching_entries raw_topic = []"
    unfolding matching_entries_def filter_empty_conv
    using assms by (auto simp: str_includes_iff_sublist)
  then show ?thesis by (simp add: expand_def)
qed

lemma expand_match:
  assumes "(key, terms) \<in> set expansion_table" and "sublist key (normalize_topic raw_topic)"
  shows "set terms \<subseteq> expand raw_topic"
proof -
  from assms have "(key, terms) \<in> set (matching_entries raw_topic)"
    by (simp add: matching_entries_def str_includes_iff_sublist)
  then show ?thesis
    by (force simp: expand_def)
qed

lemma expand_vocabulary: "expand raw_topic \<subseteq> set (concat (map snd expansion_table))"
  by (auto simp: expand_def matching_entries_def)

lemma matching_matter: "matching_entries ''matter'' = [expansion_table ! 0]"
  by code_simp

lemma expand_matter:
  "expand ''matter'' = {''chemistry'', ''chemical'', ''atomic'', ''molecule'', ''reaction'', ''element''}"
  unfolding expand_def matching_matter by (simp add: expansion_table_def)

lemma expansion_terms_nonempty: "(key, terms) \<in> set expansion_table \<Longrightarrow> terms \<noteq> []"
  by (auto simp: expansion_table_def)

lemma expand_empty_iff:
  "expand raw_topic = {} \<longleftrightarrow>
     (\<forall>key \<in> set (map fst expansion_table). \<not> sublist key (normalize_topic raw_topic))"
proof
  assume empty: "expand raw_topic = {}"
  show "\<forall>key \<in> set (map fst expansion_table). \<not> sublist key (normalize_topic raw_topic)"
  proof
    fix key assume "key \<in> set (map fst expansion_table)"
    then obtain terms where entry: "(key, terms) \<in> set expansion_table"
      by auto
    show "\<not> sublist key (normalize_topic raw_topic)"
    proof
      assume "sublist key (normalize_topic raw_topic)"
      from expand_match [OF entry this] empty have "set terms = {}"
        by simp
      with expansion_terms_nonempty [OF entry] show False
        by simp
    qed
  qed
next
  assume "\<forall>key \<in> set (map fst expansion_table). \<not> sublist key (normalize_topic raw_topic)"
  then show "expand raw_topic = {}"
    by (rule expand_no_match)
qed

text \<open>
  C5. \<open>expand\<close> is a total function of the topic alone, so two evaluations on one
  topic give one set. The set is empty exactly when the normalized topic contains no
  key of the expansion table; it is always a finite part of the table's terms; and
  \<open>expand\<close> of \<open>matter\<close> is the set of the six chemistry terms.
\<close>

theorem expand_total_lookup:
  "(\<forall>first_run second_run.
      first_run = expand raw_topic \<and> second_run = expand raw_topic \<longrightarrow>
      first_run = second_run) \<and>
   (expand raw_topic = {} \<longleftrightarrow>
      (\<forall>key \<in> set (map fst expansion_table). \<not> sublist key (normalize_topic raw_topic))) \<and>
   expand raw_topic \<subseteq> set (concat (map snd expansion_table)) \<and>
   finite (expand raw_topic) \<and>
   expand ''matter'' =
     {''chemistry'', ''chemical'', ''atomic'', ''molecule'', ''reaction'', ''element''}"
proof -
  have fin: "finite (expand raw_topic)"
    by (simp add: expand_def)
  have same: "\<forall>first_run second_run.
      first_run = expand raw_topic \<and> second_run = expand raw_topic \<longrightarrow>
      first_run = second_run"
    by simp
  from same expand_empty_iff [of raw_topic] expand_vocabulary [of raw_topic] fin expand_matter
  show ?thesis by (intro conjI)
qed

lemma algebra_has_no_key:
  "list_all (\<lambda>key. \<not> str_includes (normalize_topic ''Algebra '') key) (map fst expansion_table)"
  by code_simp

lemma padded_matter_normalized: "normalize_topic ''  MATTER and reactions '' = ''matter and reactions''"
  by code_simp

lemma matter_is_key: "''matter'' \<in> set (map fst expansion_table)"
  by (simp add: expansion_table_def)

lemma matter_in_padded: "sublist ''matter'' ''matter and reactions''"
proof -
  have "str_includes ''matter and reactions'' ''matter''"
    by code_simp
  then show ?thesis
    unfolding str_includes_iff_sublist .
qed

theorem expand_total_lookup_witness:
  "expand ''Algebra '' = {} \<and>
   expand ''  MATTER and reactions '' \<noteq> {} \<and>
   expand ''matter'' =
     {''chemistry'', ''chemical'', ''atomic'', ''molecule'', ''reaction'', ''element''}"
proof -
  have no: "\<forall>key \<in> set (map fst expansion_table).
      \<not> sublist key (normalize_topic ''Algebra '')"
    using algebra_has_no_key unfolding list_all_iff str_includes_iff_sublist .
  note none = expand_total_lookup [of "''Algebra ''", THEN conjunct2, THEN conjunct1]
  from none no have a: "expand ''Algebra '' = {}"
    by (rule iffD2)
  note some = expand_total_lookup [of "''  MATTER and reactions ''",
      THEN conjunct2, THEN conjunct1]
  have m: "sublist ''matter'' (normalize_topic ''  MATTER and reactions '')"
    unfolding padded_matter_normalized by (rule matter_in_padded)
  have b: "expand ''  MATTER and reactions '' \<noteq> {}"
  proof
    assume "expand ''  MATTER and reactions '' = {}"
    with some have "\<forall>key \<in> set (map fst expansion_table).
        \<not> sublist key (normalize_topic ''  MATTER and reactions '')"
      by (rule iffD1)
    from bspec [OF this matter_is_key] m show False
      by (rule notE)
  qed
  note c = expand_total_lookup [of "''matter''", THEN conjunct2, THEN conjunct2,
      THEN conjunct2, THEN conjunct2]
  from a b c show ?thesis
    by (intro conjI)
qed

subsection \<open>Assembled objectives\<close>

lemma remdups_snoc: "remdups (ys @ [x]) = remdups (filter (\<lambda>y. y \<noteq> x) ys) @ [x]"
  by (induction ys) auto

lemma first_kept_first:
  "rev (remdups (rev (x # ys))) = x # rev (remdups (rev (filter (\<lambda>y. y \<noteq> x) ys)))"
  by (simp add: remdups_snoc rev_filter)

lemma filter_not_seen_Cons:
  "filter (\<lambda>y. y \<noteq> x) (filter (\<lambda>y. y \<notin> set seen) xs) =
     filter (\<lambda>y. y \<notin> set (x # seen)) xs"
  by (induction xs) auto

lemma first_seen_rev_remdups:
  "first_seen seen xs = rev (remdups (rev (filter (\<lambda>y. y \<notin> set seen) xs)))"
proof (induction xs arbitrary: seen)
  case Nil
  then show ?case by simp
next
  case (Cons x xs)
  show ?case
  proof (cases "x \<in> set seen")
    case True
    with Cons.IH [of seen] show ?thesis by simp
  next
    case False
    then have "rev (remdups (rev (filter (\<lambda>y. y \<notin> set seen) (x # xs)))) =
        rev (remdups (rev (x # filter (\<lambda>y. y \<notin> set seen) xs)))"
      by simp
    also have "\<dots> = x # rev (remdups (rev (filter (\<lambda>y. y \<notin> set (x # seen)) xs)))"
      by (simp only: first_kept_first filter_not_seen_Cons)
    also have "\<dots> = x # first_seen (x # seen) xs"
      by (simp only: Cons.IH [of "x # seen"])
    finally show ?thesis using False by simp
  qed
qed

lemma count_list_distinct: "distinct xs \<Longrightarrow> x \<in> set xs \<Longrightarrow> count_list xs x = 1"
  by (induction xs) auto

lemma extracted_objectives_first_seen:
  "extracted_objectives chunks =
     rev (remdups (rev (concat (map (\<lambda>c. extract_objectives (chunk_body c)) chunks))))"
  by (simp add: extracted_objectives_def first_seen_rev_remdups)

lemma extracted_objectives_distinct: "distinct (extracted_objectives chunks)"
  by (simp add: extracted_objectives_first_seen)

lemma extracted_objectives_set:
  "set (extracted_objectives chunks) =
     (\<Union>c \<in> set chunks. set (extract_objectives (chunk_body c)))"
  by (simp add: extracted_objectives_first_seen)

lemma generic_objective_references:
  "references (generic_objective verb topic_text subj) topic_text"
  "references (generic_objective verb topic_text subj) (subject_name subj)"
proof -
  have "sublist topic_text ((verb @ '' '') @ topic_text @ ('' in '' @ subject_name subj))"
    by (rule sublist_appendI)
  then show "references (generic_objective verb topic_text subj) topic_text"
    by (simp add: references_def generic_objective_def str_includes_iff_sublist)
  have "sublist (subject_name subj)
      ((verb @ '' '' @ topic_text @ '' in '') @ subject_name subj)"
    by (rule sublist_append_leftI)
  then show "references (generic_objective verb topic_text subj) (subject_name subj)"
    by (simp add: references_def generic_objective_def str_includes_iff_sublist)
qed

lemma generic_objectives_facts:
  "length (generic_objectives topic_text subj) = 3"
  "\<forall>objective \<in> set (generic_objectives topic_text subj).
     references objective topic_text \<and> references objective (subject_name subj)"
  by (simp_all add: generic_objectives_def generic_objective_references)

lemma first_seen_keeps_first:
  "first_seen [] (x # xs) = x # first_seen [] (filter (\<lambda>y. y \<noteq> x) xs)"
proof -
  have "first_seen [] (x # xs) = rev (remdups (rev (x # xs)))"
    by (simp add: first_seen_rev_remdups)
  also have "\<dots> = x # rev (remdups (rev (filter (\<lambda>y. y \<noteq> x) xs)))"
    by (rule first_kept_first)
  also have "\<dots> = x # first_seen [] (filter (\<lambda>y. y \<noteq> x) xs)"
    by (simp add: first_seen_rev_remdups)
  finally show ?thesis .
qed

lemma assemble_objectives_nonempty: "assemble_objectives subj topic_text chunks \<noteq> []"
  by (simp add: assemble_objectives_def generic_objectives_def)

text \<open>
  C6. The extracted objectives are those of all chunks, each kept once at the place
  where it is first seen: a list that begins with \<open>x\<close> yields \<open>x\<close> and then the
  first-seen objectives of the rest without \<open>x\<close>, so that a bullet of two chunks
  stands in the list once. When there are any, they are the objectives of the payload;
  when there are none, the objectives of the payload are the three generic ones, each
  of which references the topic and the subject. The objectives of the payload are
  never empty.
\<close>

theorem assemble_objectives_union_or_generic:
  "extracted_objectives chunks =
     first_seen [] (concat (map (\<lambda>c. extract_objectives (chunk_body c)) chunks)) \<and>
   first_seen [] (x # xs) = x # first_seen [] (filter (\<lambda>y. y \<noteq> x) xs) \<and>
   first_seen [] [] = [] \<and>
   set (extracted_objectives chunks) =
     (\<Union>c \<in> set chunks. set (extract_objectives (chunk_body c))) \<and>
   (\<forall>t \<in> set (extracted_objectives chunks). count_list (extracted_objectives chunks) t = 1) \<and>
   (extracted_objectives chunks \<noteq> [] \<longrightarrow>
      assemble_objectives subj topic_text chunks = extracted_objectives chunks) \<and>
   (extracted_objectives chunks = [] \<longrightarrow>
      assemble_objectives subj topic_text chunks = generic_objectives topic_text subj) \<and>
   length (generic_objectives topic_text subj) = 3 \<and>
   (\<forall>objective \<in> set (generic_objectives topic_text subj).
      references objective topic_text \<and> references objective (subject_name subj)) \<and>
   assemble_objectives subj topic_text chunks \<noteq> []"
proof -
  have once: "\<forall>t \<in> set (extracted_objectives chunks).
      count_list (extracted_objectives chunks) t = 1"
    using count_list_distinct [OF extracted_objectives_distinct] by blast
  have some: "extracted_objectives chunks \<noteq> [] \<longrightarrow>
      assemble_objectives subj topic_text chunks = extracted_objectives chunks"
    by (simp add: assemble_objectives_def)
  have none: "extracted_objectives chunks = [] \<longrightarrow>
      assemble_objectives subj topic_text chunks = generic_objectives topic_text subj"
    by (simp add: assemble_objectives_def)
  have def: "extracted_objectives chunks =
      first_seen [] (concat (map (\<lambda>c. extract_objectives (chunk_body c)) chunks))"
    by (simp add: extracted_objectives_def)
  have nil: "first_seen [] [] = ([] :: string list)"
    by simp
  from def first_seen_keeps_first [of x xs] nil extracted_objectives_set [of chunks] once some
    none generic_objectives_facts [of topic_text subj]
    assemble_objectives_nonempty [of subj topic_text chunks]
  show ?thesis by (intro conjI)
qed

lemma extracted_objectives_two_chunks:
  "extracted_objectives [atomic_chunk, acids_chunk] =
     [''Understand atomic structure'', ''Explain chemical bonding'',
      ''Understand pH and acidity'']"
  by code_simp

lemma extract_objectives_acids_chunk:
  "extract_objectives (chunk_body acids_chunk) =
     [''Explain chemical bonding'', ''Understand pH and acidity'']"
  by code_simp

lemma extracted_objectives_no_chunks: "extracted_objectives [] = []"
  by (simp add: extracted_objectives_def)

lemma generic_objectives_algebra:
  "generic_objectives ''algebra'' Math =
     [''Understand algebra in math'', ''Explain algebra in math'', ''Apply algebra in math'']"
  by code_simp

theorem assemble_objectives_union_or_generic_witness:
  "extract_objectives (chunk_body atomic_chunk) =
     [''Understand atomic structure'', ''Explain chemical bonding''] \<and>
   extract_objectives (chunk_body acids_chunk) =
     [''Explain chemical bonding'', ''Understand pH and acidity''] \<and>
   assemble_objectives Science ''matter'' [atomic_chunk, acids_chunk] =
     [''Understand atomic structure'', ''Explain chemical bonding'',
      ''Understand pH and acidity''] \<and>
   count_list (assemble_objectives Science ''matter'' [atomic_chunk, acids_chunk])
     ''Explain chemical bonding'' = 1 \<and>
   assemble_objectives Math ''algebra'' [] =
     [''Understand algebra in math'', ''Explain algebra in math'', ''Apply algebra in math''] \<and>
   references ''Explain algebra in math'' ''algebra'' \<and>
   references ''Explain algebra in math'' (subject_name Math)"
proof -
  let ?both = "[atomic_chunk, acids_chunk]"
  note th = assemble_objectives_union_or_generic
    [where chunks = ?both and subj = Science and topic_text = "''matter''"]
  note once = th [THEN conjunct2, THEN conjunct2, THEN conjunct2, THEN conjunct2,
      THEN conjunct1]
  note some = th [THEN conjunct2, THEN conjunct2, THEN conjunct2, THEN conjunct2,
      THEN conjunct2, THEN conjunct1]
  have ne: "extracted_objectives ?both \<noteq> []"
    unfolding extracted_objectives_two_chunks by simp
  from some ne
  have a: "assemble_objectives Science ''matter'' ?both = extracted_objectives ?both"
    by (rule mp)
  have "''Explain chemical bonding'' \<in> set (extracted_objectives ?both)"
    unfolding extracted_objectives_two_chunks by simp
  with once have c: "count_list (extracted_objectives ?both) ''Explain chemical bonding'' = 1"
    by (rule bspec)
  note th0 = assemble_objectives_union_or_generic
    [where chunks = "[]" and subj = Math and topic_text = "''algebra''"]
  note none = th0 [THEN conjunct2, THEN conjunct2, THEN conjunct2, THEN conjunct2,
      THEN conjunct2, THEN conjunct2, THEN conjunct1]
  note refs = th0 [THEN conjunct2, THEN conjunct2, THEN conjunct2, THEN conjunct2,
      THEN conjunct2, THEN conjunct2, THEN conjunct2, THEN conjunct2, THEN conjunct1]
  from none extracted_objectives_no_chunks
  have "assemble_objectives Math ''algebra'' [] = generic_objectives ''algebra'' Math"
    by (rule mp)
  then have g: "assemble_objectives Math ''algebra'' [] =
     [''Understand algebra in math'', ''Explain algebra in math'', ''Apply algebra in math'']"
    unfolding generic_objectives_algebra .
  have "''Explain algebra in math'' \<in> set (generic_objectives ''algebra'' Math)"
    unfolding generic_objectives_algebra by simp
  with refs have r: "references ''Explain algebra in math'' ''algebra'' \<and>
      references ''Explain algebra in math'' (subject_name Math)"
    by (rule bspec)
  have a': "assemble_objectives Science ''matter'' ?both =
     [''Understand atomic structure'', ''Explain chemical bonding'',
      ''Understand pH and acidity'']"
    using a unfolding extracted_objectives_two_chunks .
  have c': "count_list (assemble_objectives Science ''matter'' ?both)
     ''Explain chemical bonding'' = 1"
    using c unfolding a .
  from extract_objectives_atomic_chunk extract_objectives_acids_chunk a' c' g
    r [THEN conjunct1] r [THEN conjunct2]
  show ?thesis
    by (intro conjI)
qed

end
